theory Spec2Isabelle
  imports Main "HOL-Library.Word"
begin

section \<open>The JavaScript values the component handles\<close>

text \<open>
  \<^verbatim>\<open>src/App.jsx\<close> keeps whatever \<^verbatim>\<open>res.json()\<close> returned in its state: the values are
  those of \<^verbatim>\<open>JSON.parse\<close>. The component does no arithmetic on a number; it only tests it
  for truthiness and turns it into text. A number is therefore carried by the text that
  \<^verbatim>\<open>Number.prototype.toString\<close> gives for it; both zeros print as \<^verbatim>\<open>0\<close>, a numeral
  too large for a double is \<^verbatim>\<open>Infinity\<close>, and JSON has no NaN. A string is its UTF-8
  bytes. An object is the list of its own properties in enumeration order.
\<close>

datatype json =
    JNull
  | JBool bool
  | JNum string
  | JStr string
  | JArr "json list"
  | JObj "(string \<times> json) list"

text \<open>An exception object, with its \<^verbatim>\<open>message\<close>.\<close>

datatype js_exception = TypeError (message: string)

text \<open>
  The properties the source reads by name. None of them is inherited from a prototype, so
  on a string, a number, a boolean or an array each of them is \<^verbatim>\<open>undefined\<close>.
\<close>

datatype field = Transcription | File | WebViewLink | Id | Summary | Action_items

fun field_name :: "field \<Rightarrow> string" where
  "field_name Transcription = ''transcription''"
| "field_name File = ''file''"
| "field_name WebViewLink = ''webViewLink''"
| "field_name Id = ''id''"
| "field_name Summary = ''summary''"
| "field_name Action_items = ''action_items''"

text \<open>
  \<^verbatim>\<open>v.name\<close>, where \<open>None\<close> stands for \<^verbatim>\<open>undefined\<close>. Reading a property of
  \<^verbatim>\<open>null\<close> or \<^verbatim>\<open>undefined\<close> throws a TypeError (the message is V8's).
\<close>

fun get_field :: "json option \<Rightarrow> field \<Rightarrow> js_exception + json option" where
  "get_field None f =
     Inl (TypeError (''Cannot read properties of undefined (reading '' @ [CHR 0x27] @
                     field_name f @ [CHR 0x27] @ '')''))"
| "get_field (Some JNull) f =
     Inl (TypeError (''Cannot read properties of null (reading '' @ [CHR 0x27] @
                     field_name f @ [CHR 0x27] @ '')''))"
| "get_field (Some (JObj kvs)) f = Inr (map_of kvs (field_name f))"
| "get_field (Some v) f = Inr None"

text \<open>ToBoolean: what \<^verbatim>\<open>!v\<close> and \<^verbatim>\<open>v || w\<close> test.\<close>

fun truthy :: "json option \<Rightarrow> bool" where
  "truthy None = False"
| "truthy (Some JNull) = False"
| "truthy (Some (JBool b)) = b"
| "truthy (Some (JNum t)) = (t \<noteq> ''0'')"
| "truthy (Some (JStr s)) = (s \<noteq> [])"
| "truthy (Some (JArr vs)) = True"
| "truthy (Some (JObj kvs)) = True"

fun join :: "string \<Rightarrow> string list \<Rightarrow> string" where
  "join sep [] = []"
| "join sep [x] = x"
| "join sep (x # y # ys) = x @ sep @ join sep (y # ys)"

text \<open>
  ToString, as string concatenation with \<^verbatim>\<open>+\<close> applies it: an array joins its elements
  with commas (\<^verbatim>\<open>null\<close> printing as nothing), an object prints as
  \<^verbatim>\<open>[object Object]\<close>.
\<close>

fun to_string :: "json \<Rightarrow> string" where
  "to_string JNull = ''null''"
| "to_string (JBool b) = (if b then ''true'' else ''false'')"
| "to_string (JNum t) = t"
| "to_string (JStr s) = s"
| "to_string (JArr vs) = join '','' (map (\<lambda>v. if v = JNull then [] else to_string v) vs)"
| "to_string (JObj kvs) = ''[object Object]''"

definition to_string_opt :: "json option \<Rightarrow> string" where
  "to_string_opt v = (case v of None \<Rightarrow> ''undefined'' | Some w \<Rightarrow> to_string w)"

text \<open>
  \<^verbatim>\<open>JSON.stringify\<close> without indentation. A number prints as its text, an infinite one as
  \<^verbatim>\<open>null\<close>. A string is quoted with the escapes of
  ECMAScript's QuoteJSONString: the quote, the backslash, the five short escapes, and
  \<^verbatim>\<open>\u00xx\<close> for the other control characters.
\<close>

definition hex_digit :: "nat \<Rightarrow> char" where
  "hex_digit n = ''0123456789abcdef'' ! (n mod 16)"

definition quote_char :: "char \<Rightarrow> string" where
  "quote_char c =
     (if c = CHR 0x22 then [CHR 0x5C, CHR 0x22]
      else if c = CHR 0x5C then [CHR 0x5C, CHR 0x5C]
      else if c = CHR 0x08 then [CHR 0x5C, CHR ''b'']
      else if c = CHR 0x09 then [CHR 0x5C, CHR ''t'']
      else if c = CHR 0x0A then [CHR 0x5C, CHR ''n'']
      else if c = CHR 0x0C then [CHR 0x5C, CHR ''f'']
      else if c = CHR 0x0D then [CHR 0x5C, CHR ''r'']
      else if of_char c < (32 :: nat)
        then [CHR 0x5C, CHR ''u'', CHR ''0'', CHR ''0'',
              hex_digit (of_char c div 16), hex_digit (of_char c)]
      else [c])"

definition quote :: "string \<Rightarrow> string" where
  "quote s = [CHR 0x22] @ concat (map quote_char s) @ [CHR 0x22]"

fun JSON_stringify :: "json \<Rightarrow> string" where
  "JSON_stringify JNull = ''null''"
| "JSON_stringify (JBool b) = (if b then ''true'' else ''false'')"
| "JSON_stringify (JNum t) = (if t = ''Infinity'' \<or> t = ''-Infinity'' then ''null'' else t)"
| "JSON_stringify (JStr s) = quote s"
| "JSON_stringify (JArr vs) = ''['' @ join '','' (map JSON_stringify vs) @ '']''"
| "JSON_stringify (JObj kvs) =
     ''{'' @ join '','' (map (\<lambda>kv. quote (fst kv) @ '':'' @ JSON_stringify (snd kv)) kvs) @ ''}''"

text \<open>\<^verbatim>\<open>v || w\<close> where \<^verbatim>\<open>v\<close> may be \<^verbatim>\<open>undefined\<close> and \<^verbatim>\<open>w\<close> is a value.\<close>

definition or_else :: "json option \<Rightarrow> json \<Rightarrow> json" where
  "or_else a b = (case a of None \<Rightarrow> b | Some v \<Rightarrow> if truthy (Some v) then v else b)"

section \<open>The component's state and its surroundings\<close>

type_synonym blob = "8 word list"

datatype recorder_state = Inactive | Recording | Paused

text \<open>A MediaRecorder object: the stream it was built on (by number) and its \<^verbatim>\<open>state\<close>.\<close>

record media_recorder =
  stream :: nat
  state :: recorder_state

text \<open>A \<^verbatim>\<open>fetch\<close> call: URL, method, headers and body.\<close>

datatype body =
    Form_data "(string \<times> blob \<times> string \<times> string) list"
  | Json_text string

datatype request =
  Fetch (url: string) (http_method: string) (headers: "(string \<times> string) list") (payload: body)

text \<open>What the component is waiting for: a promise not yet settled, or the \<^verbatim>\<open>stop\<close> event
  that \<^verbatim>\<open>MediaRecorder.stop()\<close> has queued for a recorder.\<close>

datatype task = Awaiting_mic | Stop_pending nat | Awaiting_upload | Awaiting_save | Awaiting_summary

text \<open>
  The five \<^verbatim>\<open>useState\<close> cells and the two refs of \<^verbatim>\<open>App\<close>, followed by the part of the
  browser the handlers act on: the MediaRecorder objects created so far (the ref holds an
  index into them), the number of streams \<^verbatim>\<open>getUserMedia\<close> has handed out (stream \<open>i\<close> is
  the \<open>i\<close>-th one), the streams whose tracks were stopped, the requests sent, and the
  tasks outstanding.
\<close>

record app =
  recording :: bool
  transcript :: json
  summary :: json
  actionItems :: json
  status :: string
  mediaRecorderRef :: "nat option"
  chunksRef :: "blob list"
  recorders :: "media_recorder list"
  acquired :: nat
  released :: "nat list"
  requests :: "request list"
  inflight :: "task list"

definition init :: app where
  "init = \<lparr> recording = False, transcript = JStr [], summary = JStr [], actionItems = JArr [],
            status = ''idle'', mediaRecorderRef = None, chunksRef = [], recorders = [],
            acquired = 0, released = [], requests = [], inflight = [] \<rparr>"

section \<open>startRecording\<close>

text \<open>Lines 13 to 16: up to the \<^verbatim>\<open>await\<close> of \<^verbatim>\<open>getUserMedia\<close>.\<close>

definition startRecording :: "app \<Rightarrow> app" where
  "startRecording s =
     s\<lparr> transcript := JStr [], status := ''requesting_mic'',
        inflight := inflight s @ [Awaiting_mic] \<rparr>"

text \<open>
  How the \<^verbatim>\<open>try\<close> block goes on: \<^verbatim>\<open>getUserMedia\<close> rejects, or it hands out a stream and
  then \<^verbatim>\<open>new MediaRecorder(stream)\<close> throws (a browser without MediaRecorder), or
  \<^verbatim>\<open>mr.start()\<close> throws, or recording starts.
\<close>

datatype recorder_outcome = Constructor_throws string | Start_throws string | Started

datatype mic_outcome = Rejected string | Granted recorder_outcome

text \<open>Lines 49 to 52, the \<^verbatim>\<open>catch\<close>.\<close>

definition mic_catch :: "string \<Rightarrow> app \<Rightarrow> app" where
  "mic_catch msg s =
     s\<lparr> status := ''mic_error'',
        transcript := JStr (''Microphone access denied or not available: '' @ msg) \<rparr>"

text \<open>Lines 17 to 19: the new recorder, inactive, goes into the ref; the chunk list is emptied.\<close>

definition new_recorder :: "nat \<Rightarrow> app \<Rightarrow> app" where
  "new_recorder strm s =
     s\<lparr> recorders := recorders s @ [\<lparr> stream = strm, state = Inactive \<rparr>],
        mediaRecorderRef := Some (length (recorders s)),
        chunksRef := [] \<rparr>"

text \<open>Lines 46 to 48, \<^verbatim>\<open>mr\<close> being recorder \<open>i\<close>.\<close>

definition start_recorder :: "nat \<Rightarrow> app \<Rightarrow> app" where
  "start_recorder i s =
     s\<lparr> recorders := (recorders s)[i := (recorders s ! i)\<lparr> state := Recording \<rparr>],
        recording := True, status := ''recording'' \<rparr>"

text \<open>The continuation after the \<^verbatim>\<open>await\<close>. The stream handed out is number
  \<open>acquired s\<close>, the recorder built on it number \<open>length (recorders s)\<close>.\<close>

fun startRecording_resume :: "mic_outcome \<Rightarrow> app \<Rightarrow> app" where
  "startRecording_resume (Rejected msg) s = mic_catch msg s"
| "startRecording_resume (Granted (Constructor_throws msg)) s =
     mic_catch msg (s\<lparr> acquired := Suc (acquired s) \<rparr>)"
| "startRecording_resume (Granted (Start_throws msg)) s =
     mic_catch msg (new_recorder (acquired s) (s\<lparr> acquired := Suc (acquired s) \<rparr>))"
| "startRecording_resume (Granted Started) s =
     start_recorder (length (recorders s))
       (new_recorder (acquired s) (s\<lparr> acquired := Suc (acquired s) \<rparr>))"

text \<open>Lines 21 to 23: \<^verbatim>\<open>e.data\<close> may be missing; an empty blob is not kept.\<close>

definition ondataavailable :: "blob option \<Rightarrow> app \<Rightarrow> app" where
  "ondataavailable d s =
     (case d of
        None \<Rightarrow> s
      | Some b \<Rightarrow> if length b > 0 then s\<lparr> chunksRef := chunksRef s @ [b] \<rparr> else s)"

text \<open>Lines 26 to 36: the blob is the concatenation of the chunks held when the \<^verbatim>\<open>stop\<close>
  event is handled.\<close>

definition upload_request :: "blob list \<Rightarrow> request" where
  "upload_request chunks =
     Fetch ''http://127.0.0.1:8000/upload-audio'' ''POST'' []
       (Form_data [(''file'', concat chunks, ''audio/webm'', ''meeting.webm'')])"

definition onstop :: "app \<Rightarrow> app" where
  "onstop s =
     s\<lparr> status := ''uploading'',
        requests := requests s @ [upload_request (chunksRef s)],
        inflight := inflight s @ [Awaiting_upload] \<rparr>"

text \<open>How a \<^verbatim>\<open>fetch\<close> followed by \<^verbatim>\<open>res.json()\<close> ends: with \<^verbatim>\<open>res.ok\<close> and the parsed
  body, or with an exception (no connection, or a body that is not JSON).\<close>

datatype http_outcome = Response bool json | Failed string

text \<open>Lines 40 to 43.\<close>

definition upload_catch :: "string \<Rightarrow> app \<Rightarrow> app" where
  "upload_catch msg s =
     s\<lparr> transcript := JStr (''Error uploading/transcribing: '' @ msg), status := ''error'' \<rparr>"

text \<open>Lines 37 to 39: the state the handler leaves. \<^verbatim>\<open>res.ok\<close> is not looked at; a
  body of \<^verbatim>\<open>null\<close> makes \<^verbatim>\<open>json.transcription\<close> throw inside the \<^verbatim>\<open>try\<close>. Whether
  the component can show the new transcript is decided when it renders (\<open>render\<close> below,
  which \<open>step\<close> applies after every handler).\<close>

fun upload_resolved :: "http_outcome \<Rightarrow> app \<Rightarrow> app" where
  "upload_resolved (Failed msg) s = upload_catch msg s"
| "upload_resolved (Response ok j) s =
     (case get_field (Some j) Transcription of
        Inl e \<Rightarrow> upload_catch (message e) s
      | Inr t \<Rightarrow> s\<lparr> transcript := or_else t (JStr (JSON_stringify j)), status := ''done'' \<rparr>)"

section \<open>stopRecording\<close>

text \<open>
  Lines 55 to 63. \<^verbatim>\<open>stop()\<close> makes the recorder inactive at once and queues its
  \<^verbatim>\<open>stop\<close> event; the tracks of the recorder's stream are stopped. The ref only ever
  holds the index of a recorder that exists.
\<close>

definition stopRecording :: "app \<Rightarrow> app" where
  "stopRecording s =
     (let s1 =
        (case mediaRecorderRef s of
           None \<Rightarrow> s
         | Some i \<Rightarrow>
             if i < length (recorders s) \<and> state (recorders s ! i) \<noteq> Inactive
             then s\<lparr> recorders := (recorders s)[i := (recorders s ! i)\<lparr> state := Inactive \<rparr>],
                     inflight := inflight s @ [Stop_pending i],
                     released := released s @ [stream (recorders s ! i)] \<rparr>
             else s)
      in s1\<lparr> recording := False, status := ''stopped'' \<rparr>)"

section \<open>The two buttons under the transcript\<close>

definition json_headers :: "(string \<times> string) list" where
  "json_headers = [(''Content-Type'', ''application/json'')]"

text \<open>Lines 88 to 92: the request that saves the text \<open>t\<close>.\<close>

definition save_request :: "json \<Rightarrow> request" where
  "save_request t =
     Fetch ''http://127.0.0.1:8000/save-transcript'' ''POST'' json_headers
       (Json_text (JSON_stringify (JObj [(''filename'', JStr ''transcript.txt''), (''content'', t)])))"

text \<open>Lines 85 to 92: the handler of "Save to Google Drive", up to the \<^verbatim>\<open>await\<close>.\<close>

definition save_onClick :: "app \<Rightarrow> app" where
  "save_onClick s =
     (if \<not> truthy (Some (transcript s)) then s
      else s\<lparr> status := ''saving'',
              requests := requests s @ [save_request (transcript s)],
              inflight := inflight s @ [Awaiting_save] \<rparr>)"

text \<open>\<^verbatim>\<open>j.file.webViewLink || j.file.id\<close> (line 96).\<close>

definition saved_reference :: "json \<Rightarrow> js_exception + json option" where
  "saved_reference j =
     (case get_field (Some j) File of
        Inl e \<Rightarrow> Inl e
      | Inr f \<Rightarrow>
          (case get_field f WebViewLink of
             Inl e \<Rightarrow> Inl e
           | Inr l \<Rightarrow> if truthy l then Inr l else get_field f Id))"

definition save_error :: "string \<Rightarrow> app \<Rightarrow> app" where
  "save_error txt s =
     s\<lparr> status := ''save_error'',
        transcript := JStr (to_string (transcript s) @ [CHR 0x0A, CHR 0x0A] @
                            ''[Save error] '' @ txt) \<rparr>"

text \<open>
  Lines 93 to 104. The argument of \<^verbatim>\<open>setTranscript\<close> is a function of the transcript
  current when the update is applied. React calls it while rendering, outside the
  \<^verbatim>\<open>try\<close>: an exception thrown by \<^verbatim>\<open>j.file.webViewLink\<close> is not caught by line 101
  and ends the component (\<open>Inl\<close>).
\<close>

fun save_resolved :: "http_outcome \<Rightarrow> app \<Rightarrow> js_exception + app" where
  "save_resolved (Failed msg) s = Inr (save_error msg s)"
| "save_resolved (Response ok j) s =
     (if ok then
        (case saved_reference j of
           Inl e \<Rightarrow> Inl e
         | Inr r \<Rightarrow>
             Inr (s\<lparr> status := ''saved'',
                     transcript := JStr (to_string (transcript s) @ [CHR 0x0A, CHR 0x0A] @
                                         ''[Saved to Drive] '' @ to_string_opt r) \<rparr>))
      else Inr (save_error (JSON_stringify j) s))"

text \<open>Lines 117 to 121: the request that summarizes the text \<open>t\<close>.\<close>

definition summarize_request :: "json \<Rightarrow> request" where
  "summarize_request t =
     Fetch ''http://127.0.0.1:8000/summarize'' ''POST'' json_headers
       (Json_text (JSON_stringify (JObj [(''text'', t), (''num_sentences'', JNum ''3'')])))"

text \<open>Lines 114 to 121: the handler of "Summarize", up to the \<^verbatim>\<open>await\<close>.\<close>

definition summarize_onClick :: "app \<Rightarrow> app" where
  "summarize_onClick s =
     (if \<not> truthy (Some (transcript s)) then s
      else s\<lparr> status := ''summarizing'',
              requests := requests s @ [summarize_request (transcript s)],
              inflight := inflight s @ [Awaiting_summary] \<rparr>)"

definition summary_error :: "string \<Rightarrow> app \<Rightarrow> app" where
  "summary_error txt s =
     s\<lparr> summary := JStr (''Error summarizing: '' @ txt), status := ''summary_error'' \<rparr>"

text \<open>Lines 122 to 134: the state the handler leaves. Whether the component can show the
  new summary and action items is decided when it renders (\<open>render\<close> below, which
  \<open>step\<close> applies after every handler).\<close>

fun summarize_resolved :: "http_outcome \<Rightarrow> app \<Rightarrow> app" where
  "summarize_resolved (Failed msg) s = summary_error msg s"
| "summarize_resolved (Response ok j) s =
     (if ok then
        (case get_field (Some j) Summary of
           Inl e \<Rightarrow> summary_error (message e) s
         | Inr sm \<Rightarrow>
             (case get_field (Some j) Action_items of
                Inl e \<Rightarrow> summary_error (message e) s
              | Inr ai \<Rightarrow>
                  s\<lparr> summary := or_else sm (JStr []),
                     actionItems := or_else ai (JArr []),
                     status := ''summarized'' \<rparr>))
      else summary_error (JSON_stringify j) s)"

section \<open>Rendering\<close>

text \<open>
  After every change of state React calls \<^verbatim>\<open>App\<close> again and renders what lines 65 to 157
  return. An exception thrown there is caught by nothing, and React unmounts the component.
  Three places show values that came from a reply: line 81 the transcript, lines 142 to
  147 the summary, lines 148 to 153 the action items.
\<close>

datatype rendering = Renders | Throws | Host_defined

text \<open>
  A value in the place of a child: a string or a number is shown as text, \<^verbatim>\<open>null\<close> and
  the booleans as nothing, an array as its elements; an object that is not an element
  makes React throw.
\<close>

fun renderable :: "json \<Rightarrow> bool" where
  "renderable (JObj kvs) = False"
| "renderable (JArr vs) = list_all renderable vs"
| "renderable v = True"

text \<open>
  \<^verbatim>\<open>{transcript || <em>...</em>}\<close> and \<^verbatim>\<open>{summary && (... {summary} ...)}\<close>: a truthy
  value is shown as a child; in place of a falsy one the fixed element, or the falsy value
  itself, is shown, and neither throws.
\<close>

definition shown :: "json \<Rightarrow> bool" where
  "shown v = (if truthy (Some v) then renderable v else True)"

text \<open>
  \<^verbatim>\<open>v > 0\<close> for the value of a \<^verbatim>\<open>length\<close> property read from a reply. A string, an
  array or an object is first turned into a number from its text, which ECMAScript leaves
  in part to the implementation: there the model gives no answer.
\<close>

fun gt_zero :: "json \<Rightarrow> bool option" where
  "gt_zero JNull = Some False"
| "gt_zero (JBool b) = Some b"
| "gt_zero (JNum t) = Some (t \<noteq> ''0'' \<and> take 1 t \<noteq> ''-'')"
| "gt_zero v = None"

text \<open>
  Lines 148 to 153, \<^verbatim>\<open>actionItems && actionItems.length > 0 && (... actionItems.map(...))\<close>.
  An array has a length and \<^verbatim>\<open>map\<close>, and each element is shown as a child of its
  \<^verbatim>\<open>li\<close>. A string has a length but no \<^verbatim>\<open>map\<close>, so the call throws. A number or a
  boolean has no length, and \<^verbatim>\<open>undefined > 0\<close> is false. An object has the length the
  reply gave it, if any, and at best a \<^verbatim>\<open>map\<close> that is not a function.
\<close>

fun items :: "json \<Rightarrow> rendering" where
  "items JNull = Renders"
| "items (JBool b) = Renders"
| "items (JNum t) = Renders"
| "items (JStr s) = (if s = [] then Renders else Throws)"
| "items (JArr vs) = (if list_all renderable vs then Renders else Throws)"
| "items (JObj kvs) =
     (case map_of kvs ''length'' of
        None \<Rightarrow> Renders
      | Some l \<Rightarrow>
          (case gt_zero l of
             None \<Rightarrow> Host_defined
           | Some b \<Rightarrow> if b then Throws else Renders))"

text \<open>
  The call of \<^verbatim>\<open>map\<close> is made while \<^verbatim>\<open>App\<close> runs, before React looks at the
  children.
\<close>

definition render :: "app \<Rightarrow> rendering" where
  "render s =
     (case items (actionItems s) of
        Renders \<Rightarrow> if shown (transcript s) \<and> shown (summary s) then Renders else Throws
      | Throws \<Rightarrow> Throws
      | Host_defined \<Rightarrow> Host_defined)"

section \<open>The buttons\<close>

text \<open>
  A disabled button delivers no click. Lines 74 and 75 disable Record while
  \<^verbatim>\<open>recording\<close> is set and Stop while it is not; lines 106 and 136 disable the other
  two while the transcript is falsy or their own request is shown as running.
\<close>

definition click_record :: "app \<Rightarrow> app" where
  "click_record s = (if recording s then s else startRecording s)"

definition click_stop :: "app \<Rightarrow> app" where
  "click_stop s = (if \<not> recording s then s else stopRecording s)"

definition click_save :: "app \<Rightarrow> app" where
  "click_save s =
     (if \<not> truthy (Some (transcript s)) \<or> status s = ''saving'' then s else save_onClick s)"

definition click_summarize :: "app \<Rightarrow> app" where
  "click_summarize s =
     (if \<not> truthy (Some (transcript s)) \<or> status s = ''summarizing'' then s
      else summarize_onClick s)"

section \<open>Runs of the component\<close>

text \<open>
  The component moves by events: a click, or the browser settling something the
  component waits for. An event of the second kind needs its task to be outstanding.
  A recorder delivers data while it records and until its \<^verbatim>\<open>stop\<close> event.
\<close>

datatype event =
    Click_record
  | Click_stop
  | Click_save
  | Click_summarize
  | Mic mic_outcome
  | Data_available nat "blob option"
  | Stop_event nat
  | Upload_done http_outcome
  | Save_done http_outcome
  | Summarize_done http_outcome

text \<open>
  Why a run stops: the event cannot happen; an exception thrown by a state updater
  unmounts the component; the component throws while it renders the new state and is
  unmounted; or the reply is one on which this model does not say whether it renders.
\<close>

datatype halt = Not_pending | Unmounted js_exception | Render_throws | Not_modelled

definition settle :: "task \<Rightarrow> app \<Rightarrow> app option" where
  "settle t s =
     (if t \<in> set (inflight s) then Some (s\<lparr> inflight := remove1 t (inflight s) \<rparr>) else None)"

definition delivering :: "nat \<Rightarrow> app \<Rightarrow> bool" where
  "delivering i s =
     (i < length (recorders s) \<and>
      (state (recorders s ! i) \<noteq> Inactive \<or> Stop_pending i \<in> set (inflight s)))"

text \<open>The handler of each event, and the state it leaves.\<close>

fun dispatch :: "event \<Rightarrow> app \<Rightarrow> halt + app" where
  "dispatch Click_record s = Inr (click_record s)"
| "dispatch Click_stop s = Inr (click_stop s)"
| "dispatch Click_save s = Inr (click_save s)"
| "dispatch Click_summarize s = Inr (click_summarize s)"
| "dispatch (Mic r) s =
     (case settle Awaiting_mic s of
        None \<Rightarrow> Inl Not_pending
      | Some s' \<Rightarrow> Inr (startRecording_resume r s'))"
| "dispatch (Data_available i d) s =
     (if delivering i s then Inr (ondataavailable d s) else Inl Not_pending)"
| "dispatch (Stop_event i) s =
     (case settle (Stop_pending i) s of
        None \<Rightarrow> Inl Not_pending
      | Some s' \<Rightarrow> Inr (onstop s'))"
| "dispatch (Upload_done r) s =
     (case settle Awaiting_upload s of
        None \<Rightarrow> Inl Not_pending
      | Some s' \<Rightarrow> Inr (upload_resolved r s'))"
| "dispatch (Save_done r) s =
     (case settle Awaiting_save s of
        None \<Rightarrow> Inl Not_pending
      | Some s' \<Rightarrow>
          (case save_resolved r s' of Inl e \<Rightarrow> Inl (Unmounted e) | Inr s'' \<Rightarrow> Inr s''))"
| "dispatch (Summarize_done r) s =
     (case settle Awaiting_summary s of
        None \<Rightarrow> Inl Not_pending
      | Some s' \<Rightarrow> Inr (summarize_resolved r s'))"

text \<open>After the handler the component renders the state it left.\<close>

definition mounted :: "app \<Rightarrow> halt + app" where
  "mounted s =
     (case render s of
        Renders \<Rightarrow> Inr s
      | Throws \<Rightarrow> Inl Render_throws
      | Host_defined \<Rightarrow> Inl Not_modelled)"

definition step :: "event \<Rightarrow> app \<Rightarrow> halt + app" where
  "step e s = (case dispatch e s of Inl h \<Rightarrow> Inl h | Inr s' \<Rightarrow> mounted s')"

fun run :: "event list \<Rightarrow> app \<Rightarrow> halt + app" where
  "run [] s = Inr s"
| "run (e # es) s = (case step e s of Inl h \<Rightarrow> Inl h | Inr s' \<Rightarrow> run es s')"

inductive reachable :: "app \<Rightarrow> bool" where
  reachable_init: "reachable init"
| reachable_step: "reachable s \<Longrightarrow> step e s = Inr s' \<Longrightarrow> reachable s'"

text \<open>The streams handed out whose tracks were never stopped.\<close>

definition live_streams :: "app \<Rightarrow> nat list" where
  "live_streams s = filter (\<lambda>i. i \<notin> set (released s)) [0..<acquired s]"

text \<open>The data events of a list, handled one after the other.\<close>

fun deliver :: "blob option list \<Rightarrow> app \<Rightarrow> app" where
  "deliver [] s = s"
| "deliver (d # ds) s = deliver ds (ondataavailable d s)"

text \<open>The bytes an event carries: none when \<^verbatim>\<open>e.data\<close> is missing.\<close>

definition bytes_of :: "blob option \<Rightarrow> blob" where
  "bytes_of d = (case d of None \<Rightarrow> [] | Some b \<Rightarrow> b)"

text \<open>The file sent by an upload request.\<close>

fun uploaded_file :: "request \<Rightarrow> blob option" where
  "uploaded_file (Fetch u m h (Form_data [(name, b, ty, fname)])) = Some b"
| "uploaded_file r = None"

text \<open>One field of the state at the end of a run, when the component is still mounted.\<close>

definition at_end :: "(app \<Rightarrow> 'a) \<Rightarrow> 'e + app \<Rightarrow> 'a option" where
  "at_end f r = (case r of Inl h \<Rightarrow> None | Inr s \<Rightarrow> Some (f s))"

section \<open>Sample runs\<close>

text \<open>One whole recording with no audio data: Record, the microphone granted, Stop, the
  recorder's \<^verbatim>\<open>stop\<close> event, and the reply \<^verbatim>\<open>{"transcription": text}\<close>.\<close>

definition recorded :: "string \<Rightarrow> event list" where
  "recorded text =
     [Click_record, Mic (Granted Started), Click_stop, Stop_event 0,
      Upload_done (Response True (JObj [(''transcription'', JStr text)]))]"

section \<open>Facts about runs\<close>

lemmas handler_defs =
  click_record_def click_stop_def click_save_def click_summarize_def startRecording_def
  mic_catch_def new_recorder_def start_recorder_def ondataavailable_def onstop_def
  upload_catch_def stopRecording_def save_onClick_def save_error_def summarize_onClick_def
  summary_error_def settle_def

lemmas run_defs = step_def mounted_def render_def shown_def

lemma run_append:
  "run (es @ fs) s = (case run es s of Inl h \<Rightarrow> Inl h | Inr s' \<Rightarrow> run fs s')"
  by (induction es arbitrary: s) (auto split: sum.splits)

lemma run_snoc: "run es s = Inr s' \<Longrightarrow> run (es @ [e]) s = step e s'"
  by (simp add: run_append split: sum.splits)

text \<open>What is rendered depends on the transcript, the summary and the action items only.\<close>

lemma render_frame:
  "transcript s' = transcript s \<Longrightarrow> summary s' = summary s \<Longrightarrow>
   actionItems s' = actionItems s \<Longrightarrow> render s' = render s"
  unfolding render_def by (simp only:)

lemma step_dispatch: "step e s = Inr s' \<Longrightarrow> dispatch e s = Inr s'"
  by (auto simp: step_def mounted_def split: sum.splits rendering.splits)

lemma step_renders: "step e s = Inr s' \<Longrightarrow> render s' = Renders"
  by (auto simp: step_def mounted_def split: sum.splits rendering.splits)

lemma run_reachable: "reachable s \<Longrightarrow> run es s = Inr s' \<Longrightarrow> reachable s'"
proof (induction es arbitrary: s)
  case Nil
  then show ?case by simp
next
  case (Cons e es)
  then show ?case by (auto split: sum.splits intro: reachable_step)
qed

text \<open>A state that is reached has been rendered.\<close>

lemma reachable_renders: "reachable s \<Longrightarrow> render s = Renders"
proof (induction rule: reachable.induct)
  case reachable_init
  show ?case by (simp add: init_def render_def shown_def)
next
  case (reachable_step s e s')
  then show ?case by (simp add: step_renders)
qed

text \<open>
  Replies the component cannot show end the run: a transcription that is an object, and
  action items that are a string or hold an object.
\<close>

lemma unrenderable_replies:
  "run [Click_record, Mic (Granted Started), Click_stop, Stop_event 0,
        Upload_done (Response True (JObj [(''transcription'', JObj [(''a'', JNum ''1'')])]))]
     init = Inl Render_throws \<and>
   run (recorded ''hi'' @
        [Click_summarize,
         Summarize_done (Response True (JObj [(''summary'', JStr ''s''),
                                              (''action_items'', JStr ''abc'')]))])
     init = Inl Render_throws \<and>
   run (recorded ''hi'' @
        [Click_summarize,
         Summarize_done (Response True (JObj [(''action_items'', JArr [JObj []])]))])
     init = Inl Render_throws \<and>
   run (recorded ''hi'' @
        [Click_summarize,
         Summarize_done (Response True (JObj [(''summary'', JObj [])]))])
     init = Inl Render_throws"
  by (simp add: recorded_def handler_defs run_defs init_def or_else_def)

text \<open>The status \<^verbatim>\<open>recording\<close> is only written together with the flag (lines 47 and 48),
  and the flag is only cleared together with the status (lines 61 and 62).\<close>

lemma step_status_recording:
  assumes "dispatch e s = Inr s'" and "status s = ''recording'' \<longrightarrow> recording s"
  shows "status s' = ''recording'' \<longrightarrow> recording s'"
proof (cases e)
  case (Mic r)
  then show ?thesis using assms
    by (cases "(r, s)" rule: startRecording_resume.cases)
       (auto simp: handler_defs split: option.splits if_splits)
next
  case (Upload_done r)
  then show ?thesis using assms
    by (cases r) (auto simp: handler_defs split: option.splits if_splits sum.splits)
next
  case (Save_done r)
  then show ?thesis using assms
    by (cases r) (auto simp: handler_defs split: option.splits if_splits sum.splits)
next
  case (Summarize_done r)
  then show ?thesis using assms
    by (cases r) (auto simp: handler_defs split: option.splits if_splits sum.splits)
qed (use assms in \<open>auto simp: handler_defs Let_def split: option.splits if_splits\<close>)

lemma reachable_status_recording:
  "reachable s \<Longrightarrow> status s = ''recording'' \<Longrightarrow> recording s"
proof (induction rule: reachable.induct)
  case reachable_init
  then show ?case by (simp add: init_def)
next
  case (reachable_step s e s')
  then show ?case using step_status_recording step_dispatch by blast
qed

text \<open>The ref never dangles: the test \<open>i < length (recorders s)\<close> in \<open>stopRecording\<close>
  holds in every reachable state.\<close>

lemma step_ref_valid:
  assumes "dispatch e s = Inr s'"
    and "\<forall>i. mediaRecorderRef s = Some i \<longrightarrow> i < length (recorders s)"
  shows "\<forall>i. mediaRecorderRef s' = Some i \<longrightarrow> i < length (recorders s')"
proof (cases e)
  case (Mic r)
  then show ?thesis using assms
    by (cases "(r, s)" rule: startRecording_resume.cases)
       (auto simp: handler_defs split: option.splits if_splits)
next
  case (Upload_done r)
  then show ?thesis using assms
    by (cases r) (auto simp: handler_defs split: option.splits if_splits sum.splits)
next
  case (Save_done r)
  then show ?thesis using assms
    by (cases r) (auto simp: handler_defs split: option.splits if_splits sum.splits)
next
  case (Summarize_done r)
  then show ?thesis using assms
    by (cases r) (auto simp: handler_defs split: option.splits if_splits sum.splits)
qed (use assms in \<open>auto simp: handler_defs Let_def split: option.splits if_splits\<close>)

lemma reachable_ref_valid:
  "reachable s \<Longrightarrow> mediaRecorderRef s = Some i \<Longrightarrow> i < length (recorders s)"
proof (induction arbitrary: i rule: reachable.induct)
  case reachable_init
  then show ?case by (simp add: init_def)
next
  case (reachable_step s e s')
  then show ?case using step_ref_valid step_dispatch by blast
qed

text \<open>An event sends at most one request, and only of the three kinds.\<close>

lemma step_requests:
  assumes "dispatch e s = Inr s'"
  shows "requests s' = requests s \<or>
         requests s' = requests s @ [upload_request (chunksRef s)] \<or>
         requests s' = requests s @ [save_request (transcript s)] \<or>
         requests s' = requests s @ [summarize_request (transcript s)]"
proof (cases e)
  case (Mic r)
  then show ?thesis using assms
    by (cases "(r, s)" rule: startRecording_resume.cases)
       (auto simp: handler_defs split: option.splits if_splits)
next
  case (Upload_done r)
  then show ?thesis using assms
    by (cases r) (auto simp: handler_defs split: option.splits if_splits sum.splits)
next
  case (Save_done r)
  then show ?thesis using assms
    by (cases r) (auto simp: handler_defs split: option.splits if_splits sum.splits)
next
  case (Summarize_done r)
  then show ?thesis using assms
    by (cases r) (auto simp: handler_defs split: option.splits if_splits sum.splits)
qed (use assms in \<open>auto simp: handler_defs Let_def split: option.splits if_splits\<close>)

lemma url_requests:
  "url (upload_request c) = ''http://127.0.0.1:8000/upload-audio''"
  "url (save_request t) = ''http://127.0.0.1:8000/save-transcript''"
  "url (summarize_request t) = ''http://127.0.0.1:8000/summarize''"
  by (simp_all add: upload_request_def save_request_def summarize_request_def)

lemma reachable_summarize_requests:
  "reachable s \<Longrightarrow> r \<in> set (requests s) \<Longrightarrow>
   url r = ''http://127.0.0.1:8000/summarize'' \<Longrightarrow> \<exists>t. r = summarize_request t"
proof (induction arbitrary: r rule: reachable.induct)
  case reachable_init
  then show ?case by (simp add: init_def)
next
  case (reachable_step s e s')
  from step_requests[OF step_dispatch[OF reachable_step.hyps(2)]]
    reachable_step.prems reachable_step.IH
  show ?case by (auto simp: url_requests)
qed

text \<open>Data events only add to the chunk list: the non-empty blobs, in order.\<close>

lemma deliver_chunks:
  "chunksRef (deliver ds s) = chunksRef s @ filter (\<lambda>b. b \<noteq> []) (map bytes_of ds)"
  by (induction ds arbitrary: s) (auto simp: ondataavailable_def bytes_of_def split: option.splits)

lemma concat_nonempty: "concat (filter (\<lambda>b. b \<noteq> []) bs) = concat bs"
  by (induction bs) auto

lemma chunks_stopRecording: "chunksRef (stopRecording s) = chunksRef s"
  by (simp add: stopRecording_def Let_def split: option.splits)

lemma chunks_started: "chunksRef (startRecording_resume (Granted Started) s) = []"
  by (simp add: new_recorder_def start_recorder_def)

text \<open>Reading \<^verbatim>\<open>transcription\<close> gives \<^verbatim>\<open>undefined\<close> on every value but \<^verbatim>\<open>null\<close> and
  the objects that have the property.\<close>

lemma undefined_transcription:
  assumes "j \<noteq> JNull" and "\<And>kvs. j = JObj kvs \<Longrightarrow> ''transcription'' \<notin> fst ` set kvs"
  shows "get_field (Some j) Transcription = Inr None"
proof (cases j)
  case (JObj kvs)
  with assms(2) have "map_of kvs ''transcription'' = None"
    by (simp add: map_of_eq_None_iff)
  with JObj show ?thesis by simp
qed (use assms(1) in simp_all)

section \<open>Starting a recording\<close>

text \<open>
  C1. Whatever the state, \<^verbatim>\<open>startRecording\<close> empties the transcript (and with it any error
  text the transcript showed; the source has no separate error message) and sets the
  status to \<^verbatim>\<open>requesting_mic\<close> before it asks for the microphone: the request is
  outstanding and no stream has been handed out yet.
\<close>

theorem startRecording_clears_transcript:
  "transcript (startRecording s) = JStr [] \<and>
   status (startRecording s) = ''requesting_mic'' \<and>
   acquired (startRecording s) = acquired s \<and>
   inflight (startRecording s) = inflight s @ [Awaiting_mic]"
  by (simp add: startRecording_def)

text \<open>
  C1, as the specification has it, asks for the summary and the action items to be emptied
  too. After a recording has been summarized, a click on Record leaves both in place.
\<close>

theorem startRecording_keeps_summary:
  "at_end summary
     (run (recorded ''alpha beta gamma'' @
           [Click_summarize,
            Summarize_done (Response True (JObj [(''summary'', JStr ''alpha.''),
                                                 (''action_items'', JArr [JStr ''buy milk''])])),
            Click_record]) init) = Some (JStr ''alpha.'') \<and>
   at_end actionItems
     (run (recorded ''alpha beta gamma'' @
           [Click_summarize,
            Summarize_done (Response True (JObj [(''summary'', JStr ''alpha.''),
                                                 (''action_items'', JArr [JStr ''buy milk''])])),
            Click_record]) init) = Some (JArr [JStr ''buy milk'']) \<and>
   at_end status
     (run (recorded ''alpha beta gamma'' @
           [Click_summarize,
            Summarize_done (Response True (JObj [(''summary'', JStr ''alpha.''),
                                                 (''action_items'', JArr [JStr ''buy milk''])])),
            Click_record]) init) = Some ''requesting_mic''"
  by code_simp

section \<open>The microphone stream\<close>

text \<open>
  C2. Every stream handed out should have its tracks stopped once. The only place that
  stops tracks is \<^verbatim>\<open>stopRecording\<close> (line 59, "stop all tracks to release mic"); the
  \<^verbatim>\<open>catch\<close> of \<^verbatim>\<open>startRecording\<close> does not. When the stream is granted and the
  MediaRecorder cannot be built, the run ends in \<^verbatim>\<open>mic_error\<close> with nothing outstanding,
  one stream handed out and none released; Stop is disabled and changes nothing.
\<close>

theorem recorder_failure_leaks_stream:
  "at_end acquired
     (run [Click_record, Mic (Granted (Constructor_throws ''MediaRecorder is not defined''))] init)
     = Some 1 \<and>
   at_end released
     (run [Click_record, Mic (Granted (Constructor_throws ''MediaRecorder is not defined''))] init)
     = Some [] \<and>
   at_end live_streams
     (run [Click_record, Mic (Granted (Constructor_throws ''MediaRecorder is not defined''))] init)
     = Some [0] \<and>
   at_end status
     (run [Click_record, Mic (Granted (Constructor_throws ''MediaRecorder is not defined''))] init)
     = Some ''mic_error'' \<and>
   at_end inflight
     (run [Click_record, Mic (Granted (Constructor_throws ''MediaRecorder is not defined''))] init)
     = Some [] \<and>
   at_end released
     (run [Click_record, Mic (Granted (Constructor_throws ''MediaRecorder is not defined'')),
           Click_stop] init)
     = Some []"
  by code_simp

text \<open>Whatever the state, that path hands out a stream and stops none.\<close>

lemma failed_recorder_keeps_stream:
  "acquired (startRecording_resume (Granted (Constructor_throws msg)) s) = Suc (acquired s) \<and>
   released (startRecording_resume (Granted (Constructor_throws msg)) s) = released s \<and>
   acquired (startRecording_resume (Granted (Start_throws msg)) s) = Suc (acquired s) \<and>
   released (startRecording_resume (Granted (Start_throws msg)) s) = released s"
  by (simp add: mic_catch_def new_recorder_def)

text \<open>A recording that is stopped with the button does release its stream.\<close>

lemma stop_releases_stream:
  "at_end acquired (run (recorded ''hi'') init) = Some 1 \<and>
   at_end released (run (recorded ''hi'') init) = Some [0] \<and>
   at_end live_streams (run (recorded ''hi'') init) = Some []"
  by code_simp

text \<open>
  The same happens without any exception: Record is only disabled once the microphone
  has been granted, so it can be clicked twice. The second recorder replaces the first in
  the ref, and Stop releases the second stream only.
\<close>

lemma second_start_orphans_first_stream:
  "at_end acquired
     (run [Click_record, Click_record, Mic (Granted Started), Mic (Granted Started),
           Click_stop, Stop_event 1, Upload_done (Response True (JObj [(''transcription'', JStr ''hi'')])),
           Click_stop] init) = Some 2 \<and>
   at_end released
     (run [Click_record, Click_record, Mic (Granted Started), Mic (Granted Started),
           Click_stop, Stop_event 1, Upload_done (Response True (JObj [(''transcription'', JStr ''hi'')])),
           Click_stop] init) = Some [1] \<and>
   at_end live_streams
     (run [Click_record, Click_record, Mic (Granted Started), Mic (Granted Started),
           Click_stop, Stop_event 1, Upload_done (Response True (JObj [(''transcription'', JStr ''hi'')])),
           Click_stop] init) = Some [0] \<and>
   at_end inflight
     (run [Click_record, Click_record, Mic (Granted Started), Mic (Granted Started),
           Click_stop, Stop_event 1, Upload_done (Response True (JObj [(''transcription'', JStr ''hi'')])),
           Click_stop] init) = Some []"
  by code_simp

section \<open>Errors\<close>

text \<open>
  C3. Every exception the source catches, and every reply to a save or a summary that is
  not ok, ends in an error status with a readable message. A refused or unavailable
  microphone (the promise rejected, or the recorder failing to be built or started) sets
  \<^verbatim>\<open>mic_error\<close>, the source's name for what the specification calls \<open>device_error\<close>;
  an upload that throws (no connection, a reply that is not JSON, or the reply \<^verbatim>\<open>null\<close>)
  sets \<^verbatim>\<open>error\<close>, its name for \<open>upload_error\<close>; both put the message into the
  transcript. A failed save sets \<^verbatim>\<open>save_error\<close> and appends the message to the
  transcript; a failed summary sets \<^verbatim>\<open>summary_error\<close> and puts it into the summary.
\<close>

theorem errors_set_error_status:
  "status (startRecording_resume (Rejected msg) s) = ''mic_error'' \<and>
   transcript (startRecording_resume (Rejected msg) s) =
     JStr (''Microphone access denied or not available: '' @ msg) \<and>
   status (startRecording_resume (Granted (Constructor_throws msg)) s) = ''mic_error'' \<and>
   transcript (startRecording_resume (Granted (Constructor_throws msg)) s) =
     JStr (''Microphone access denied or not available: '' @ msg) \<and>
   status (startRecording_resume (Granted (Start_throws msg)) s) = ''mic_error'' \<and>
   transcript (startRecording_resume (Granted (Start_throws msg)) s) =
     JStr (''Microphone access denied or not available: '' @ msg) \<and>
   status (upload_resolved (Failed msg) s) = ''error'' \<and>
   transcript (upload_resolved (Failed msg) s) = JStr (''Error uploading/transcribing: '' @ msg) \<and>
   status (upload_resolved (Response ok JNull) s) = ''error'' \<and>
   transcript (upload_resolved (Response ok JNull) s) =
     JStr (''Error uploading/transcribing: '' @
           ''Cannot read properties of null (reading '' @ [CHR 0x27] @ ''transcription'' @
           [CHR 0x27] @ '')'') \<and>
   save_resolved (Failed msg) s =
     Inr (s\<lparr> status := ''save_error'',
            transcript := JStr (to_string (transcript s) @ [CHR 0x0A, CHR 0x0A] @
                                ''[Save error] '' @ msg) \<rparr>) \<and>
   save_resolved (Response False j) s =
     Inr (s\<lparr> status := ''save_error'',
            transcript := JStr (to_string (transcript s) @ [CHR 0x0A, CHR 0x0A] @
                                ''[Save error] '' @ JSON_stringify j) \<rparr>) \<and>
   summarize_resolved (Failed msg) s =
     s\<lparr> summary := JStr (''Error summarizing: '' @ msg), status := ''summary_error'' \<rparr> \<and>
   summarize_resolved (Response False j) s =
     s\<lparr> summary := JStr (''Error summarizing: '' @ JSON_stringify j),
        status := ''summary_error'' \<rparr> \<and>
   summarize_resolved (Response True JNull) s =
     s\<lparr> summary := JStr (''Error summarizing: '' @
                         ''Cannot read properties of null (reading '' @ [CHR 0x27] @
                         ''summary'' @ [CHR 0x27] @ '')''),
        status := ''summary_error'' \<rparr>"
  by (simp add: mic_catch_def upload_catch_def new_recorder_def save_error_def summary_error_def)

text \<open>
  C3, as the specification has it, sends every failed transcription to a status named
  \<open>upload_error\<close>. The upload never looks at \<^verbatim>\<open>res.ok\<close>: a reply with an error
  status and a JSON body ends in \<^verbatim>\<open>done\<close>, the body shown as the transcript. And the
  statuses the source writes are \<^verbatim>\<open>mic_error\<close> and \<^verbatim>\<open>error\<close>.
\<close>

theorem error_reply_ends_done:
  \<open>at_end status
     (run [Click_record, Mic (Granted Started), Click_stop, Stop_event 0,
           Upload_done (Response False (JObj [(''detail'', JStr ''Internal Server Error'')]))]
        init) = Some ''done'' \<and>
   at_end transcript
     (run [Click_record, Mic (Granted Started), Click_stop, Stop_event 0,
           Upload_done (Response False (JObj [(''detail'', JStr ''Internal Server Error'')]))]
        init) = Some (JStr ''{"detail":"Internal Server Error"}'') \<and>
   at_end status (run [Click_record, Mic (Rejected ''Permission denied'')] init) =
     Some ''mic_error'' \<and>
   at_end status
     (run [Click_record, Mic (Granted Started), Click_stop, Stop_event 0,
           Upload_done (Failed ''Failed to fetch'')] init) = Some ''error''\<close>
  by code_simp

section \<open>Saving\<close>




section \<open>Record and Stop\<close>

text \<open>
  C5. The two buttons are gated by the \<^verbatim>\<open>recording\<close> flag, not by the status: in every
  reachable state a click on Stop changes nothing unless the flag is set, and a click on
  Record changes nothing while the flag is set, which it is whenever the status is
  \<^verbatim>\<open>recording\<close>. The handlers themselves carry no guard; the gate is the buttons'
  \<^verbatim>\<open>disabled\<close> attribute.
\<close>

theorem buttons_gated_by_recording_flag:
  assumes "reachable s"
  shows "(\<not> recording s \<longrightarrow> click_stop s = s) \<and>
         (recording s \<longrightarrow> click_record s = s) \<and>
         (status s = ''recording'' \<longrightarrow> click_record s = s)"
  using reachable_status_recording [OF assms] by (auto simp: click_stop_def click_record_def)

theorem buttons_gated_by_recording_flag_witness:
  "reachable init \<and> \<not> recording init \<and> click_stop init = init \<and>
   at_end status (run [Click_record, Mic (Granted Started)] init) = Some ''recording'' \<and>
   run [Click_record, Mic (Granted Started), Click_record] init =
     run [Click_record, Mic (Granted Started)] init"
proof -
  have "\<exists>s. run [Click_record, Mic (Granted Started)] init = Inr s \<and> status s = ''recording''"
    by (simp add: handler_defs run_defs init_def)
  then obtain s where s: "run [Click_record, Mic (Granted Started)] init = Inr s"
    and st: "status s = ''recording''" by blast
  have r: "reachable s" using run_reachable [OF reachable_init s] .
  have "click_record s = s" using buttons_gated_by_recording_flag [OF r] st by simp
  then have stp: "step Click_record s = Inr s"
    using reachable_renders [OF r] by (simp add: step_def mounted_def)
  have "run ([Click_record, Mic (Granted Started)] @ [Click_record]) init = Inr s"
    using run_snoc [OF s, of Click_record] stp by (simp only:)
  then have "run [Click_record, Mic (Granted Started), Click_record] init = Inr s"
    by (simp only: append.simps)
  moreover have "click_stop init = init \<and> \<not> recording init"
    using buttons_gated_by_recording_flag [OF reachable_init] by (simp add: init_def)
  ultimately show ?thesis using s st reachable_init by (simp add: at_end_def)
qed

text \<open>
  C5, as the specification has it, makes Stop do nothing unless the status is
  \<^verbatim>\<open>recording\<close>. When the upload of a first recording is answered during a second one,
  the status is \<^verbatim>\<open>done\<close> while the flag is set, and Stop stops the second recorder.
\<close>

theorem stop_acts_outside_recording_status:
  "at_end status
     (run [Click_record, Mic (Granted Started), Click_stop, Stop_event 0,
           Click_record, Mic (Granted Started),
           Upload_done (Response True (JObj [(''transcription'', JStr ''hi'')]))] init)
     = Some ''done'' \<and>
   at_end status
     (run [Click_record, Mic (Granted Started), Click_stop, Stop_event 0,
           Click_record, Mic (Granted Started),
           Upload_done (Response True (JObj [(''transcription'', JStr ''hi'')])),
           Click_stop] init)
     = Some ''stopped'' \<and>
   at_end released
     (run [Click_record, Mic (Granted Started), Click_stop, Stop_event 0,
           Click_record, Mic (Granted Started),
           Upload_done (Response True (JObj [(''transcription'', JStr ''hi'')]))] init)
     = Some [0] \<and>
   at_end released
     (run [Click_record, Mic (Granted Started), Click_stop, Stop_event 0,
           Click_record, Mic (Granted Started),
           Upload_done (Response True (JObj [(''transcription'', JStr ''hi'')])),
           Click_stop] init)
     = Some [0, 1]"
  by code_simp

section \<open>Saving and summarizing side by side\<close>


















section \<open>The recording\<close>

text \<open>
  C7. From the moment recording starts, the chunk list holds the non-empty blobs
  delivered, in order. The file uploaded when the \<^verbatim>\<open>stop\<close> event is handled is the
  concatenation, in order, of everything delivered before and after the click on Stop;
  events without data and empty blobs add nothing. The status is then \<^verbatim>\<open>uploading\<close>.
\<close>

theorem recording_is_concatenation:
  "chunksRef (deliver ds1 (startRecording_resume (Granted Started) s)) =
     filter (\<lambda>b. b \<noteq> []) (map bytes_of ds1) \<and>
   uploaded_file (last (requests (onstop (deliver ds2 (stopRecording (deliver ds1
       (startRecording_resume (Granted Started) s)))))))
     = Some (concat (map bytes_of (ds1 @ ds2))) \<and>
   status (onstop (deliver ds2 (stopRecording (deliver ds1
       (startRecording_resume (Granted Started) s))))) = ''uploading''"
  by (simp add: onstop_def upload_request_def deliver_chunks chunks_stopRecording
        chunks_started concat_nonempty del: startRecording_resume.simps)

text \<open>Chunks of 5, 0 and 7 bytes give a recording of 12 bytes.\<close>

theorem recording_is_concatenation_witness:
  "uploaded_file (last (requests (onstop (deliver [] (stopRecording
       (deliver [Some [1, 2, 3, 4, 5], Some [], Some [6, 7, 8, 9, 10, 11, 12]]
          (startRecording_resume (Granted Started) init)))))))
     = Some [1, 2, 3, 4, 5, 6, 7, 8, 9, 10, 11, 12] \<and>
   length [1, 2, 3, 4, 5, 6, 7, 8, 9, 10, 11, 12 :: 8 word] = 12 \<and>
   chunksRef (deliver [Some [1, 2, 3, 4, 5], Some [], Some [6, 7, 8, 9, 10, 11, 12]]
          (startRecording_resume (Granted Started) init))
     = [[1, 2, 3, 4, 5], [6, 7, 8, 9, 10, 11, 12]]"
  using recording_is_concatenation
    [of "[Some [1, 2, 3, 4, 5], Some [], Some [6, 7, 8, 9, 10, 11, 12]]" init "[]"]
  by (simp add: bytes_of_def del: startRecording_resume.simps)

section \<open>The reply of the transcription service\<close>

text \<open>
  C8. When the reply is not \<^verbatim>\<open>null\<close> and has no \<^verbatim>\<open>transcription\<close> property (an
  object without it, or a string, number, boolean or array), the transcript is the reply
  as \<^verbatim>\<open>JSON.stringify\<close> prints it and the status is \<^verbatim>\<open>done\<close>. A reply of
  \<^verbatim>\<open>null\<close> makes the read throw, and ends in the status \<^verbatim>\<open>error\<close>.
\<close>

theorem missing_transcription_falls_back:
  assumes "j \<noteq> JNull"
    and "\<And>kvs. j = JObj kvs \<Longrightarrow> ''transcription'' \<notin> fst ` set kvs"
  shows "transcript (upload_resolved (Response ok j) s) = JStr (JSON_stringify j) \<and>
         status (upload_resolved (Response ok j) s) = ''done'' \<and>
         status (upload_resolved (Response ok JNull) s) = ''error''"
  using undefined_transcription [OF assms] by (simp add: or_else_def upload_catch_def)

theorem missing_transcription_falls_back_witness:
  \<open>JObj [(''unexpected'', JStr ''shape'')] \<noteq> JNull \<and>
   ''transcription'' \<notin> fst ` set [(''unexpected'', JStr ''shape'')] \<and>
   transcript (upload_resolved (Response True (JObj [(''unexpected'', JStr ''shape'')])) init) =
     JStr ''{"unexpected":"shape"}'' \<and>
   status (upload_resolved (Response True (JObj [(''unexpected'', JStr ''shape'')])) init) = ''done''\<close>
proof -
  have h1: "JObj [(''unexpected'', JStr ''shape'')] \<noteq> JNull" by simp
  have h2: "''transcription'' \<notin> fst ` set [(''unexpected'', JStr ''shape'')]" by simp
  have h3: "\<And>kvs. JObj [(''unexpected'', JStr ''shape'')] = JObj kvs \<Longrightarrow>
      ''transcription'' \<notin> fst ` set kvs" using h2 by auto
  show ?thesis
    using h1 h2 missing_transcription_falls_back [OF h1 h3, of True init]
    by (simp add: quote_def quote_char_def)
qed

text \<open>
  C8, as the specification has it, covers every JSON reply without the field. The reply
  \<^verbatim>\<open>null\<close> is one; it does not end in \<^verbatim>\<open>done\<close> with the transcript \<^verbatim>\<open>null\<close>.
\<close>

theorem null_body_is_error:
  "at_end status
     (run [Click_record, Mic (Granted Started), Click_stop, Stop_event 0,
           Upload_done (Response True JNull)] init) = Some ''error'' \<and>
   at_end transcript
     (run [Click_record, Mic (Granted Started), Click_stop, Stop_event 0,
           Upload_done (Response True JNull)] init) \<noteq> Some (JStr ''null'')"
  by code_simp

text \<open>
  C9. A reply whose \<^verbatim>\<open>transcription\<close> is the empty string is falsy in
  \<^verbatim>\<open>json.transcription || JSON.stringify(json)\<close>: the transcript is the whole reply as
  \<^verbatim>\<open>JSON.stringify\<close> prints it, not the empty string, and the status is \<^verbatim>\<open>done\<close>.
\<close>

theorem empty_transcription_falls_back:
  assumes "map_of kvs ''transcription'' = Some (JStr [])"
  shows "transcript (upload_resolved (Response ok (JObj kvs)) s) = JStr (JSON_stringify (JObj kvs)) \<and>
         status (upload_resolved (Response ok (JObj kvs)) s) = ''done''"
  using assms by (simp add: or_else_def)

theorem empty_transcription_falls_back_witness:
  \<open>map_of [(''transcription'', JStr [])] ''transcription'' = Some (JStr []) \<and>
   transcript (upload_resolved (Response True (JObj [(''transcription'', JStr [])])) init) =
     JStr ''{"transcription":""}'' \<and>
   status (upload_resolved (Response True (JObj [(''transcription'', JStr [])])) init) = ''done''\<close>
proof -
  have h: "map_of [(''transcription'', JStr [])] ''transcription'' = Some (JStr [])"
    by simp
  show ?thesis
    using h empty_transcription_falls_back [OF h, of True init]
    by (simp add: quote_def quote_char_def)
qed

section \<open>The summary request\<close>

text \<open>
  C10. In every reachable state, each request sent to \<^verbatim>\<open>/summarize\<close> is
  \<open>summarize_request t\<close> for some text \<open>t\<close>; the handler sends it for the current
  transcript when that is truthy, and nothing otherwise. Its body is the JSON object with
  \<^verbatim>\<open>text\<close> and \<^verbatim>\<open>num_sentences\<close>, the latter always 3.
\<close>

theorem summarize_requests_three_sentences:
  assumes "reachable s"
  shows "(\<forall>r \<in> set (requests s). url r = ''http://127.0.0.1:8000/summarize'' \<longrightarrow>
            (\<exists>t. r = summarize_request t)) \<and>
         requests (summarize_onClick s) =
           (if truthy (Some (transcript s))
            then requests s @ [summarize_request (transcript s)] else requests s) \<and>
         payload (summarize_request t') =
           Json_text (''{'' @ quote ''text'' @ '':'' @ JSON_stringify t' @ '','' @
                      quote ''num_sentences'' @ '':3}'')"
  using reachable_summarize_requests [OF assms]
  by (auto simp: summarize_onClick_def summarize_request_def)

theorem summarize_requests_three_sentences_witness:
  \<open>at_end requests (run (recorded ''alpha beta gamma'' @ [Click_summarize]) init) =
     Some [upload_request [], summarize_request (JStr ''alpha beta gamma'')] \<and>
   payload (summarize_request (JStr ''alpha beta gamma'')) =
     Json_text ''{"text":"alpha beta gamma","num_sentences":3}''\<close>
proof -
  have "\<exists>s. run (recorded ''alpha beta gamma'') init = Inr s \<and>
            transcript s = JStr ''alpha beta gamma'' \<and> requests s = [upload_request []] \<and>
            status s = ''done''"
    by (simp add: recorded_def handler_defs run_defs init_def or_else_def)
  then obtain s where s: "run (recorded ''alpha beta gamma'') init = Inr s"
    and tr: "transcript s = JStr ''alpha beta gamma''"
    and rq: "requests s = [upload_request []]"
    and st: "status s = ''done''" by blast
  have r: "reachable s" using run_reachable [OF reachable_init s] .
  note c = summarize_requests_three_sentences [OF r, of "JStr ''alpha beta gamma''"]
  have "render (summarize_onClick s) = render s"
    by (rule render_frame) (simp_all add: summarize_onClick_def)
  then have "step Click_summarize s = Inr (summarize_onClick s)"
    using tr st reachable_renders [OF r] by (simp add: step_def mounted_def click_summarize_def)
  then have "run (recorded ''alpha beta gamma'' @ [Click_summarize]) init = Inr (summarize_onClick s)"
    using run_snoc [OF s, of Click_summarize] by (simp only:)
  moreover have "requests (summarize_onClick s) =
      [upload_request [], summarize_request (JStr ''alpha beta gamma'')]"
    using c tr rq by simp
  ultimately show ?thesis using c by (simp add: at_end_def quote_def quote_char_def)
qed

end
